theory Spec2Isabelle
  imports Main "HOL-Library.Sublist"
begin

section \<open>Strings\<close>

text \<open>
  Python strings are modelled as \<open>string\<close> (lists of 8-bit characters). The case
  mappings \<open>str.lower\<close> and \<open>str.capitalize\<close> act on the ASCII letters and leave
  every other character as it is.
\<close>

definition ascii_uppercase :: string where
  "ascii_uppercase = ''ABCDEFGHIJKLMNOPQRSTUVWXYZ''"

definition ascii_lowercase :: string where
  "ascii_lowercase = ''abcdefghijklmnopqrstuvwxyz''"

definition lower_char :: "char \<Rightarrow> char" where
  "lower_char c =
     (case map_of (zip ascii_uppercase ascii_lowercase) c of None \<Rightarrow> c | Some l \<Rightarrow> l)"

definition upper_char :: "char \<Rightarrow> char" where
  "upper_char c =
     (case map_of (zip ascii_lowercase ascii_uppercase) c of None \<Rightarrow> c | Some u \<Rightarrow> u)"

text \<open>\<open>s.lower()\<close>\<close>

definition lower :: "string \<Rightarrow> string" where
  "lower s = map lower_char s"

text \<open>\<open>s.capitalize()\<close>: first character upper case, the rest lower case.\<close>

definition capitalize :: "string \<Rightarrow> string" where
  "capitalize s = (case s of [] \<Rightarrow> [] | c # cs \<Rightarrow> upper_char c # map lower_char cs)"

section \<open>Errors\<close>

text \<open>
  The three exception classes of \<open>main.py\<close>, and the built-in exceptions its
  library calls raise. None of the three derives from \<open>ValueError\<close>: each is declared
  as \<open>class ...(Exception)\<close>.
\<close>

datatype error =
    InvalidDateError
  | InvalidPriorityError
  | TaskNotFoundError
  | ValueError
  | KeyError
  | TypeError
  | AttributeError

section \<open>Dates: \<open>datetime.strptime\<close> and \<open>strftime\<close> with the format \<open>%Y-%m-%d\<close>\<close>

text \<open>
  The format has no time-of-day directive, so every \<open>datetime\<close> the program builds
  is at midnight; the model keeps the calendar fields only.
\<close>

record datetime =
  year :: nat
  month :: nat
  day :: nat

text \<open>\<open>dt.date()\<close>\<close>

definition date :: "datetime \<Rightarrow> nat \<times> nat \<times> nat" where
  "date dt = (year dt, month dt, day dt)"

text \<open>
  \<open>strptime\<close> turns the format into the regular expression
  \<^verbatim>\<open>(?P<Y>\d\d\d\d)-(?P<m>1[0-2]|0[1-9]|[1-9])-(?P<d>3[0-1]|[1-2]\d|0[1-9]|[1-9]| [1-9])\<close>
  and matches it at the start of the text. A backtracking matcher is modelled by the
  list of its matches in the order it tries them: each is the matched text and the rest
  of the input.
\<close>

type_synonym 'a re = "string \<Rightarrow> ('a \<times> string) list"

definition re_char :: "(char \<Rightarrow> bool) \<Rightarrow> string re" where
  "re_char P s = (case s of [] \<Rightarrow> [] | c # r \<Rightarrow> if P c then [([c], r)] else [])"

definition re_seq :: "string re \<Rightarrow> string re \<Rightarrow> string re" where
  "re_seq p q s = concat (map (\<lambda>(a, r). map (\<lambda>(b, r'). (a @ b, r')) (q r)) (p s))"

definition re_alt :: "string re \<Rightarrow> string re \<Rightarrow> string re" where
  "re_alt p q s = p s @ q s"

definition re_lit :: "char \<Rightarrow> string re" where
  "re_lit c = re_char (\<lambda>x. x = c)"

definition re_set :: "string \<Rightarrow> string re" where
  "re_set cs = re_char (\<lambda>x. x \<in> set cs)"

definition re_digit :: "string re" where
  "re_digit = re_set ''0123456789''"

definition re_Y :: "string re" where
  "re_Y = re_seq re_digit (re_seq re_digit (re_seq re_digit re_digit))"

definition re_m :: "string re" where
  "re_m = re_alt (re_seq (re_lit CHR ''1'') (re_set ''012''))
         (re_alt (re_seq (re_lit CHR ''0'') (re_set ''123456789''))
                 (re_set ''123456789''))"

definition re_d :: "string re" where
  "re_d = re_alt (re_seq (re_lit CHR ''3'') (re_set ''01''))
         (re_alt (re_seq (re_set ''12'') re_digit)
         (re_alt (re_seq (re_lit CHR ''0'') (re_set ''123456789''))
         (re_alt (re_set ''123456789'')
                 (re_seq (re_lit CHR '' '') (re_set ''123456789'')))))"

text \<open>The whole expression, with its three named groups.\<close>

definition format_regex :: "(string \<times> string \<times> string) re" where
  "format_regex s =
     concat (map (\<lambda>(Y, r1).
     concat (map (\<lambda>(_, r2).
     concat (map (\<lambda>(m, r3).
     concat (map (\<lambda>(_, r4).
             map (\<lambda>(d, r5). ((Y, m, d), r5)) (re_d r4))
       (re_lit CHR ''-'' r3)))
       (re_m r2)))
       (re_lit CHR ''-'' r1)))
       (re_Y s))"

definition digit_value :: "char \<Rightarrow> nat" where
  "digit_value c =
     (case map_of (zip ''0123456789'' [0, 1, 2, 3, 4, 5, 6, 7, 8, 9]) c of
        None \<Rightarrow> 0 | Some n \<Rightarrow> n)"

text \<open>\<open>int(s)\<close> on a group of the match: decimal digits, after an optional blank.\<close>

definition int_of :: "string \<Rightarrow> nat" where
  "int_of s = foldl (\<lambda>n c. 10 * n + digit_value c) 0 (dropWhile (\<lambda>c. c = CHR '' '') s)"

definition is_leap :: "nat \<Rightarrow> bool" where
  "is_leap y = (y mod 4 = 0 \<and> (y mod 100 \<noteq> 0 \<or> y mod 400 = 0))"

definition days_in_month :: "nat \<Rightarrow> nat \<Rightarrow> nat" where
  "days_in_month y m =
     (if m = 2 \<and> is_leap y then 29
      else [31, 28, 31, 30, 31, 30, 31, 31, 30, 31, 30, 31] ! (m - 1))"

text \<open>The range checks of the \<open>datetime\<close> constructor (\<open>MINYEAR = 1\<close>, \<open>MAXYEAR = 9999\<close>).\<close>

definition check_date_fields :: "nat \<Rightarrow> nat \<Rightarrow> nat \<Rightarrow> bool" where
  "check_date_fields y m d =
     (1 \<le> y \<and> y \<le> 9999 \<and> 1 \<le> m \<and> m \<le> 12 \<and> 1 \<le> d \<and> d \<le> days_in_month y m)"

definition datetime_new :: "nat \<Rightarrow> nat \<Rightarrow> nat \<Rightarrow> error + datetime" where
  "datetime_new y m d =
     (if check_date_fields y m d then Inr \<lparr>year = y, month = m, day = d\<rparr>
      else Inl ValueError)"

text \<open>
  \<open>datetime.strptime(s, "%Y-%m-%d")\<close>. It raises \<open>ValueError\<close> when the expression
  does not match, when text is left over after the match, and when the fields are not
  a date of the calendar.
\<close>

definition strptime :: "string \<Rightarrow> error + datetime" where
  "strptime s =
     (case format_regex s of
        [] \<Rightarrow> Inl ValueError
      | ((Y, m, d), r) # _ \<Rightarrow>
          if r \<noteq> [] then Inl ValueError
          else datetime_new (int_of Y) (int_of m) (int_of d))"

definition digit_char :: "nat \<Rightarrow> char" where
  "digit_char n = ''0123456789'' ! (n mod 10)"

text \<open>A number in decimal, with no padding.\<close>

fun decimal :: "nat \<Rightarrow> string" where
  "decimal n = (if n < 10 then [digit_char n] else decimal (n div 10) @ [digit_char n])"

text \<open>
  \<open>dt.strftime("%Y-%m-%d")\<close>. CPython hands the format to the \<open>strftime\<close> of the
  C library, and that of glibc prints \<open>%Y\<close> as the year in decimal with no padding
  (the year 999 as \<open>999\<close>, the year 5 as \<open>5\<close>); \<open>%m\<close> and \<open>%d\<close> are zero-padded
  to two digits.
\<close>

definition strftime :: "datetime \<Rightarrow> string" where
  "strftime dt =
     decimal (year dt) @ ''-'' @
     [digit_char (month dt div 10), digit_char (month dt)] @ ''-'' @
     [digit_char (day dt div 10), digit_char (day dt)]"

section \<open>Task\<close>

record Task =
  description :: string
  due_date :: datetime
  priority :: string
  completed :: bool
  tags :: "string list"

text \<open>
  The body of the \<open>try\<close> block of \<open>Task.__init__\<close>. The parameter \<open>tags\<close> defaults
  to \<open>None\<close>, and \<open>tags or []\<close> replaces \<open>None\<close> and the empty list by a new empty list.
\<close>

definition Task_try :: "string \<Rightarrow> string \<Rightarrow> string \<Rightarrow> string list option \<Rightarrow> bool \<Rightarrow> error + Task" where
  "Task_try description' due_date' priority' tags' completed' =
     (case strptime due_date' of
        Inl e \<Rightarrow> Inl e
      | Inr dt \<Rightarrow>
          if capitalize priority' \<notin> set [''High'', ''Medium'', ''Low'']
          then Inl InvalidPriorityError
          else Inr \<lparr>description = description',
                    due_date = dt,
                    priority = capitalize priority',
                    completed = completed',
                    tags = (case tags' of None \<Rightarrow> []
                            | Some ts \<Rightarrow> if ts = [] then [] else ts)\<rparr>)"

text \<open>\<open>Task.__init__\<close>: the \<open>try\<close> block under its handler \<open>except ValueError\<close>.\<close>

definition Task_init :: "string \<Rightarrow> string \<Rightarrow> string \<Rightarrow> string list option \<Rightarrow> bool \<Rightarrow> error + Task" where
  "Task_init description' due_date' priority' tags' completed' =
     (case Task_try description' due_date' priority' tags' completed' of
        Inl e \<Rightarrow> if e = ValueError then Inl InvalidDateError else Inl e
      | Inr t \<Rightarrow> Inr t)"

text \<open>
  The dictionary of \<open>to_dict\<close> and \<open>from_dict\<close>, restricted to its five keys and
  to values of the types of the data model. \<open>None\<close> is an absent key.
\<close>

record task_dict =
  d_description :: "string option"
  d_due_date :: "string option"
  d_priority :: "string option"
  d_completed :: "bool option"
  d_tags :: "string list option"

definition to_dict :: "Task \<Rightarrow> task_dict" where
  "to_dict t =
     \<lparr>d_description = Some (description t),
      d_due_date = Some (strftime (due_date t)),
      d_priority = Some (priority t),
      d_completed = Some (completed t),
      d_tags = Some (tags t)\<rparr>"

text \<open>
  \<open>Task.from_dict\<close>: \<open>data["k"]\<close> raises \<open>KeyError\<close> on an absent key,
  \<open>data.get("k", v)\<close> gives the default.
\<close>

definition from_dict :: "task_dict \<Rightarrow> error + Task" where
  "from_dict data =
     (case d_description data of None \<Rightarrow> Inl KeyError | Some desc \<Rightarrow>
      case d_due_date data of None \<Rightarrow> Inl KeyError | Some dd \<Rightarrow>
      case d_priority data of None \<Rightarrow> Inl KeyError | Some pr \<Rightarrow>
        Task_init desc dd pr
          (Some (case d_tags data of None \<Rightarrow> [] | Some ts \<Rightarrow> ts))
          (case d_completed data of None \<Rightarrow> False | Some c \<Rightarrow> c))"

section \<open>ToDoList\<close>

record ToDoList =
  tasks :: "Task list"

definition ToDoList_init :: ToDoList where
  "ToDoList_init = \<lparr>tasks = []\<rparr>"

definition add_task :: "Task \<Rightarrow> ToDoList \<Rightarrow> ToDoList" where
  "add_task task s = s\<lparr>tasks := tasks s @ [task]\<rparr>"

text \<open>
  The mutating operations return the outcome and the store after the call. The store
  holds task values: each entry is an object of its own, as the entries that
  \<open>main\<close> and \<open>load_from_file\<close> create are.

  \<open>remove_task\<close>: the loop finds the first task with the description, and
  \<open>self.tasks.remove(task)\<close> deletes the first entry equal to it.
\<close>

definition remove_task :: "string \<Rightarrow> ToDoList \<Rightarrow> (error + unit) \<times> ToDoList" where
  "remove_task description' s =
     (case find (\<lambda>task. description task = description') (tasks s) of
        Some task \<Rightarrow> (Inr (), s\<lparr>tasks := remove1 task (tasks s)\<rparr>)
      | None \<Rightarrow> (Inl TaskNotFoundError, s))"

text \<open>The loop of \<open>mark_completed\<close>; \<open>None\<close> when it ends without a \<open>return\<close>.\<close>

fun mark_loop :: "string \<Rightarrow> Task list \<Rightarrow> Task list option" where
  "mark_loop description' [] = None"
| "mark_loop description' (task # rest) =
     (if description task = description'
      then Some (task\<lparr>completed := True\<rparr> # rest)
      else map_option ((#) task) (mark_loop description' rest))"

definition mark_completed :: "string \<Rightarrow> ToDoList \<Rightarrow> (error + unit) \<times> ToDoList" where
  "mark_completed description' s =
     (case mark_loop description' (tasks s) of
        Some ts \<Rightarrow> (Inr (), s\<lparr>tasks := ts\<rparr>)
      | None \<Rightarrow> (Inl TaskNotFoundError, s))"

text \<open>
  \<open>list_tasks(filter_by=None, value=None)\<close>. With \<open>value\<close> left at \<open>None\<close>,
  \<open>value.lower()\<close> raises \<open>AttributeError\<close> at the first task the comprehension
  visits, and \<open>strptime\<close> raises \<open>TypeError\<close>. The \<open>ValueError\<close> of \<open>strptime\<close>
  is not handled here.
\<close>

definition list_tasks :: "string option \<Rightarrow> string option \<Rightarrow> ToDoList \<Rightarrow> error + Task list" where
  "list_tasks filter_by val s =
     (if filter_by = Some ''priority'' then
        (case val of
           None \<Rightarrow> if tasks s = [] then Inr [] else Inl AttributeError
         | Some v \<Rightarrow> Inr (filter (\<lambda>t. lower (priority t) = lower v) (tasks s)))
      else if filter_by = Some ''due_date'' then
        (case val of
           None \<Rightarrow> Inl TypeError
         | Some v \<Rightarrow>
             (case strptime v of
                Inl e \<Rightarrow> Inl e
              | Inr date_obj \<Rightarrow>
                  Inr (filter (\<lambda>t. date (due_date t) = date date_obj) (tasks s))))
      else if filter_by = Some ''tag'' then
        (case val of
           None \<Rightarrow> if tasks s = [] then Inr [] else Inl AttributeError
         | Some v \<Rightarrow> Inr (filter (\<lambda>t. lower v \<in> set (map lower (tags t))) (tasks s)))
      else if filter_by = Some ''keyword'' then
        (case val of
           None \<Rightarrow> if tasks s = [] then Inr [] else Inl AttributeError
         | Some v \<Rightarrow> Inr (filter (\<lambda>t. sublist (lower v) (lower (description t))) (tasks s)))
      else Inr (tasks s))"

section \<open>Persistence\<close>

text \<open>
  A file holds the JSON document that \<open>json.dump\<close> wrote: a list of dictionaries.
  The file system maps a path to the document of the file there; \<open>None\<close> is a path with
  no file, where \<open>open(filename, "r")\<close> raises \<open>FileNotFoundError\<close>. Writing the text
  and parsing it back are the \<open>json\<close> library's.
\<close>

type_synonym files = "string \<rightharpoonup> task_dict list"

definition save_to_file :: "string \<Rightarrow> ToDoList \<Rightarrow> files \<Rightarrow> files" where
  "save_to_file filename s fs = fs(filename \<mapsto> map to_dict (tasks s))"

text \<open>\<open>[Task.from_dict(task) for task in data]\<close>: the first exception ends the comprehension.\<close>

fun from_dicts :: "task_dict list \<Rightarrow> error + Task list" where
  "from_dicts [] = Inr []"
| "from_dicts (d # ds) =
     (case from_dict d of
        Inl e \<Rightarrow> Inl e
      | Inr t \<Rightarrow> (case from_dicts ds of Inl e \<Rightarrow> Inl e | Inr ts \<Rightarrow> Inr (t # ts)))"

definition load_from_file :: "string \<Rightarrow> files \<Rightarrow> ToDoList \<Rightarrow> (error + unit) \<times> ToDoList" where
  "load_from_file filename fs s =
     (case fs filename of
        None \<Rightarrow> (Inr (), s\<lparr>tasks := []\<rparr>)
      | Some data \<Rightarrow>
          (case from_dicts data of
             Inl e \<Rightarrow> (Inl e, s)
           | Inr ts \<Rightarrow> (Inr (), s\<lparr>tasks := ts\<rparr>)))"

section \<open>Predicates of the specification\<close>

text \<open>A priority text that is High, Medium or Low up to the case of its letters.\<close>

definition priority_text_ok :: "string \<Rightarrow> bool" where
  "priority_text_ok p = (lower p \<in> {''high'', ''medium'', ''low''})"

text \<open>A task as the constructor builds it: a date of the calendar and a normalised priority.\<close>

definition valid_Task :: "Task \<Rightarrow> bool" where
  "valid_Task t =
     (check_date_fields (year (due_date t)) (month (due_date t)) (day (due_date t)) \<and>
      priority t \<in> set [''High'', ''Medium'', ''Low''])"

section \<open>Facts about the date functions\<close>

lemmas case_defs = lower_char_def upper_char_def ascii_uppercase_def ascii_lowercase_def
lemmas re_defs = re_Y_def re_m_def re_d_def re_digit_def re_set_def re_lit_def
  re_alt_def re_seq_def re_char_def

lemma below_ten:
  "(k::nat) < 10 \<Longrightarrow> k = 0 \<or> k = 1 \<or> k = 2 \<or> k = 3 \<or> k = 4 \<or> k = 5 \<or> k = 6 \<or> k = 7 \<or> k = 8 \<or> k = 9"
  by arith

lemma digit_char_cases:
  "digit_char n \<in> set ''0123456789''"
proof -
  have "n mod 10 < 10" by simp
  from below_ten [OF this] show ?thesis
    unfolding digit_char_def by (elim disjE) simp_all
qed

lemma digit_value_digit_char: "digit_value (digit_char n) = n mod 10"
proof -
  have "n mod 10 < 10" by simp
  from below_ten [OF this] show ?thesis
    unfolding digit_char_def digit_value_def by (elim disjE) simp_all
qed

lemma digit_char_not_blank: "digit_char n \<noteq> CHR '' ''"
  using digit_char_cases [of n] by auto

lemma re_Y_digits:
  "re_Y (digit_char a # digit_char b # digit_char c # digit_char d # r) =
     [([digit_char a, digit_char b, digit_char c, digit_char d], r)]"
  using digit_char_cases [of a] digit_char_cases [of b] digit_char_cases [of c] digit_char_cases [of d]
  by (simp add: re_defs)

lemma int_of_4: "int_of [digit_char a, digit_char b, digit_char c, digit_char d] =
  1000 * (a mod 10) + 100 * (b mod 10) + 10 * (c mod 10) + d mod 10"
  by (simp add: int_of_def digit_char_not_blank digit_value_digit_char)

lemma int_of_2: "int_of [digit_char a, digit_char b] = 10 * (a mod 10) + b mod 10"
  by (simp add: int_of_def digit_char_not_blank digit_value_digit_char)


lemma year_digits:
  assumes "y \<le> 9999"
  shows "1000 * (y div 1000 mod 10) + 100 * (y div 100 mod 10) + 10 * (y div 10 mod 10) + y mod 10 = (y::nat)"
proof -
  have a: "y div 1000 mod 10 = y div 1000" using assms by simp
  have b: "y div 100 = 10 * (y div 1000) + y div 100 mod 10"
    using div_mult2_eq [of y 100 10] by simp
  have c: "y div 10 = 10 * (y div 100) + y div 10 mod 10"
    using div_mult2_eq [of y 10 10] by simp
  have d: "y = 10 * (y div 10) + y mod 10" by simp
  show ?thesis using a b c d by linarith
qed

lemma two_digits: "m < 100 \<Longrightarrow> 10 * (m div 10 mod 10) + m mod 10 = (m::nat)"
  by simp

lemma month_cases:
  "1 \<le> m \<Longrightarrow> m \<le> 12 \<Longrightarrow> (m::nat) = 1 \<or> m = 2 \<or> m = 3 \<or> m = 4 \<or> m = 5 \<or> m = 6 \<or> m = 7 \<or> m = 8 \<or> m = 9 \<or> m = 10 \<or> m = 11 \<or> m = 12"
  by presburger

lemma day_cases:
  "1 \<le> d \<Longrightarrow> d \<le> 31 \<Longrightarrow> (d::nat) = 1 \<or> d = 2 \<or> d = 3 \<or> d = 4 \<or> d = 5 \<or> d = 6 \<or> d = 7 \<or> d = 8 \<or> d = 9 \<or> d = 10
   \<or> d = 11 \<or> d = 12 \<or> d = 13 \<or> d = 14 \<or> d = 15 \<or> d = 16 \<or> d = 17 \<or> d = 18 \<or> d = 19 \<or> d = 20
   \<or> d = 21 \<or> d = 22 \<or> d = 23 \<or> d = 24 \<or> d = 25 \<or> d = 26 \<or> d = 27 \<or> d = 28 \<or> d = 29 \<or> d = 30 \<or> d = 31"
  by presburger

lemma re_m_step:
  assumes "1 \<le> m" "m \<le> 12"
  shows "concat (map (\<lambda>(mm, r3). concat (map (\<lambda>(u, r4). K mm r4) (re_lit CHR ''-'' r3)))
           (re_m (digit_char (m div 10) # digit_char m # CHR ''-'' # r)))
         = K [digit_char (m div 10), digit_char m] r"
  using month_cases [OF assms]
  by (elim disjE) (simp_all add: re_defs digit_char_def)

lemma re_d_step:
  assumes "1 \<le> d" "d \<le> 31"
  shows "\<exists>rest. re_d [digit_char (d div 10), digit_char d] =
           ([digit_char (d div 10), digit_char d], []) # rest"
  using day_cases [OF assms]
  by (elim disjE) (simp_all add: re_defs digit_char_def)

lemma days_in_month_le:
  assumes "1 \<le> m" "m \<le> 12"
  shows "days_in_month y m \<le> 31"
  using month_cases [OF assms]
  by (elim disjE) (simp_all add: days_in_month_def)

declare decimal.simps [simp del]

lemma decimal_lt: "n < 10 \<Longrightarrow> decimal n = [digit_char n]"
  by (subst decimal.simps) simp

lemma decimal_ge: "10 \<le> n \<Longrightarrow> decimal n = decimal (n div 10) @ [digit_char n]"
  by (subst decimal.simps) simp

lemma div_10_10: "(y::nat) div 10 div 10 = y div 100"
  by (simp add: div_mult2_eq [symmetric])

lemma div_100_10: "(y::nat) div 100 div 10 = y div 1000"
  by (simp add: div_mult2_eq [symmetric])

text \<open>From the year 1000 on the year is printed with four digits.\<close>

lemma decimal_four:
  assumes "1000 \<le> y" "y \<le> 9999"
  shows "decimal y =
    [digit_char (y div 1000), digit_char (y div 100), digit_char (y div 10), digit_char y]"
proof -
  have y1: "10 \<le> y" using assms by simp
  have y2: "10 \<le> y div 10" using div_le_mono [OF assms(1), of 10] by simp
  have y3: "10 \<le> y div 100" using div_le_mono [OF assms(1), of 100] by simp
  have "y < 10 * 1000" using assms by simp
  then have y4: "y div 1000 < 10" by (rule less_mult_imp_div_less)
  show ?thesis
    using decimal_ge [OF y1] decimal_ge [OF y2] decimal_ge [OF y3] decimal_lt [OF y4]
    by (simp add: div_10_10 div_100_10)
qed

text \<open>Before the year 1000 it is printed with one, two or three digits.\<close>

lemma decimal_short:
  assumes "y < 1000"
  shows "decimal y = [digit_char y] \<or> decimal y = [digit_char (y div 10), digit_char y]
     \<or> decimal y = [digit_char (y div 100), digit_char (y div 10), digit_char y]"
proof (cases "y < 10")
  case True
  then show ?thesis by (simp add: decimal_lt)
next
  case False
  then have a: "decimal y = decimal (y div 10) @ [digit_char y]" by (simp add: decimal_ge)
  show ?thesis
  proof (cases "y < 100")
    case True
    then have "y < 10 * 10" by simp
    then have "y div 10 < 10" by (rule less_mult_imp_div_less)
    with a show ?thesis by (simp add: decimal_lt)
  next
    case False
    then have "100 \<le> y" by simp
    from div_le_mono [OF this, of 10] have b: "10 \<le> y div 10" by simp
    from assms have "y < 10 * 100" by simp
    then have "y div 100 < 10" by (rule less_mult_imp_div_less)
    with a decimal_ge [OF b] show ?thesis by (simp add: decimal_lt div_10_10)
  qed
qed

lemma re_digit_digit: "re_digit (digit_char a # r) = [([digit_char a], r)]"
  using digit_char_cases [of a] by (simp add: re_digit_def re_set_def re_char_def)

lemma re_digit_dash: "re_digit (CHR ''-'' # r) = []"
  by (simp add: re_digit_def re_set_def re_char_def)

lemma format_regex_strftime:
  assumes "check_date_fields y m d" and "1000 \<le> y"
  shows "\<exists>rest. format_regex (strftime \<lparr>year = y, month = m, day = d\<rparr>) =
    (([digit_char (y div 1000), digit_char (y div 100), digit_char (y div 10), digit_char y],
      [digit_char (m div 10), digit_char m],
      [digit_char (d div 10), digit_char d]), []) # rest"
proof -
  from assms have m: "1 \<le> m" "m \<le> 12" and d1: "1 \<le> d" and dm: "d \<le> days_in_month y m"
    and y: "y \<le> 9999"
    by (simp_all add: check_date_fields_def)
  from dm days_in_month_le [OF m, of y] have d: "d \<le> 31" by simp
  from re_d_step [OF d1 d] obtain rest where
    rd: "re_d [digit_char (d div 10), digit_char d] = ([digit_char (d div 10), digit_char d], []) # rest"
    by blast
  have lit: "\<And>r. re_lit CHR ''-'' (CHR ''-'' # r) = [(''-'', r)]"
    by (simp add: re_lit_def re_char_def)
  show ?thesis
    by (simp add: format_regex_def strftime_def decimal_four [OF assms(2) y] re_Y_digits lit
        re_m_step [OF m] rd)
qed

text \<open>From the year 1000 on, \<open>strptime\<close> reads back what \<open>strftime\<close> printed.\<close>

lemma strptime_strftime:
  assumes "check_date_fields y m d" and "1000 \<le> y"
  shows "strptime (strftime \<lparr>year = y, month = m, day = d\<rparr>) = Inr \<lparr>year = y, month = m, day = d\<rparr>"
proof -
  from assms have y: "y \<le> 9999" and m: "m < 100" and "d \<le> days_in_month y m" "1 \<le> m" "m \<le> 12"
    by (simp_all add: check_date_fields_def)
  with days_in_month_le [of m y] have d: "d < 100" by simp
  from format_regex_strftime [OF assms] obtain rest where
    "format_regex (strftime \<lparr>year = y, month = m, day = d\<rparr>) =
    (([digit_char (y div 1000), digit_char (y div 100), digit_char (y div 10), digit_char y],
      [digit_char (m div 10), digit_char m],
      [digit_char (d div 10), digit_char d]), []) # rest" by blast
  then show ?thesis
    using assms
    by (simp add: strptime_def int_of_4 int_of_2 year_digits [OF y] two_digits [OF m]
        two_digits [OF d] datetime_new_def)
qed

text \<open>
  Before the year 1000 it does not: the printed year has fewer than four digits, and
  the expression asks for four.
\<close>

lemma strptime_strftime_short:
  assumes "y < 1000"
  shows "strptime (strftime \<lparr>year = y, month = m, day = d\<rparr>) = Inl ValueError"
proof -
  have "re_Y (strftime \<lparr>year = y, month = m, day = d\<rparr>) = []"
    using decimal_short [OF assms]
    by (elim disjE)
      (simp_all add: strftime_def re_Y_def re_seq_def re_digit_digit re_digit_dash)
  then show ?thesis by (simp add: strptime_def format_regex_def)
qed

lemma datetime_new_valid:
  "datetime_new y m d = Inr dt \<Longrightarrow> check_date_fields (year dt) (month dt) (day dt)"
  by (auto simp: datetime_new_def split: if_splits)

lemma datetime_new_Inl: "datetime_new y m d = Inl e \<Longrightarrow> e = ValueError"
  by (auto simp: datetime_new_def split: if_splits)

lemma strptime_valid:
  "strptime s = Inr dt \<Longrightarrow> check_date_fields (year dt) (month dt) (day dt)"
  by (auto simp: strptime_def split: list.splits if_splits dest: datetime_new_valid)

lemma strptime_Inl: "strptime s = Inl e \<Longrightarrow> e = ValueError"
  by (auto simp: strptime_def split: list.splits if_splits dest: datetime_new_Inl)

lemma strptime_strftime_valid:
  assumes "check_date_fields (year dt) (month dt) (day dt)" and "1000 \<le> year dt"
  shows "strptime (strftime dt) = Inr dt"
  using strptime_strftime [OF assms] by (cases dt) simp

lemma strptime_strftime_before_1000:
  assumes "year dt < 1000"
  shows "strptime (strftime dt) = Inl ValueError"
  using strptime_strftime_short [OF assms, of "month dt" "day dt"] by (cases dt) simp

section \<open>Facts about tasks and the store\<close>

lemma up_H: "upper_char c = CHR ''H'' \<longleftrightarrow> lower_char c = CHR ''h''"
  by (simp add: case_defs)

lemma up_M: "upper_char c = CHR ''M'' \<longleftrightarrow> lower_char c = CHR ''m''"
  by (simp add: case_defs)

lemma up_L: "upper_char c = CHR ''L'' \<longleftrightarrow> lower_char c = CHR ''l''"
  by (simp add: case_defs)

lemma capitalize_in_iff:
  "capitalize p \<in> set [''High'', ''Medium'', ''Low''] \<longleftrightarrow> priority_text_ok p"
  by (cases p) (auto simp: capitalize_def lower_def priority_text_ok_def up_H up_M up_L)

lemma capitalize_fixed:
  "p \<in> set [''High'', ''Medium'', ''Low''] \<Longrightarrow> capitalize p = p"
  by (auto simp: capitalize_def case_defs)

lemma Task_init_Inr:
  assumes "strptime due_date' = Inr dt" "priority_text_ok priority'"
  shows "Task_init description' due_date' priority' tags' completed' =
     Inr \<lparr>description = description', due_date = dt, priority = capitalize priority',
          completed = completed', tags = (case tags' of None \<Rightarrow> [] | Some ts \<Rightarrow> ts)\<rparr>"
  using assms capitalize_in_iff [of priority']
  by (cases tags') (simp_all add: Task_init_def Task_try_def)

lemma Task_init_valid:
  assumes "Task_init description' due_date' priority' tags' completed' = Inr t"
  shows "valid_Task t"
  using assms
  by (auto simp: Task_init_def Task_try_def valid_Task_def
      split: sum.splits if_splits dest: strptime_valid)

text \<open>A task dated in the year 1000 or later is read back from its dictionary.\<close>

lemma from_dict_to_dict:
  assumes "valid_Task t" and "1000 \<le> year (due_date t)"
  shows "from_dict (to_dict t) = Inr t"
proof -
  from assms have d: "strptime (strftime (due_date t)) = Inr (due_date t)"
    and p: "priority t \<in> set [''High'', ''Medium'', ''Low'']"
    by (simp_all add: valid_Task_def strptime_strftime_valid)
  from p have c: "capitalize (priority t) = priority t" by (rule capitalize_fixed)
  show ?thesis
    using d p c by (simp add: from_dict_def to_dict_def Task_init_def Task_try_def)
qed

text \<open>A task dated before the year 1000 is not: \<open>from_dict\<close> raises \<open>InvalidDateError\<close>.\<close>

lemma from_dict_to_dict_before_1000:
  assumes "year (due_date t) < 1000"
  shows "from_dict (to_dict t) = Inl InvalidDateError"
  using strptime_strftime_before_1000 [OF assms]
  by (simp add: from_dict_def to_dict_def Task_init_def Task_try_def)

lemma from_dicts_to_dict:
  "\<forall>t\<in>set ts. valid_Task t \<and> 1000 \<le> year (due_date t) \<Longrightarrow>
     from_dicts (map to_dict ts) = Inr ts"
  by (induction ts) (simp_all add: from_dict_to_dict)

lemma find_None_description:
  "\<forall>t\<in>set ts. description t \<noteq> d \<Longrightarrow> find (\<lambda>task. description task = d) ts = None"
  by (induction ts) simp_all

lemma mark_loop_None:
  "\<forall>t\<in>set ts. description t \<noteq> d \<Longrightarrow> mark_loop d ts = None"
  by (induction ts) simp_all

lemma mark_loop_valid:
  "mark_loop d ts = Some ts' \<Longrightarrow> \<forall>t\<in>set ts. valid_Task t \<Longrightarrow> \<forall>t\<in>set ts'. valid_Task t"
  by (induction ts arbitrary: ts') (auto simp: valid_Task_def split: if_splits)

lemma lower_char_idem: "lower_char (lower_char c) = lower_char c"
  by (simp add: case_defs)

lemma lower_capitalize: "lower (capitalize v) = lower v"
proof (cases v)
  case Nil
  then show ?thesis by (simp add: capitalize_def lower_def)
next
  case (Cons c cs)
  have "lower_char (upper_char c) = lower_char c" by (simp add: case_defs)
  with Cons show ?thesis by (simp add: capitalize_def lower_def lower_char_idem)
qed

lemma normalised_priority_match:
  assumes "p \<in> set [''High'', ''Medium'', ''Low'']"
  shows "lower p = lower v \<longleftrightarrow> capitalize v = p"
proof
  assume "capitalize v = p"
  then show "lower p = lower v" using lower_capitalize [of v] by simp
next
  assume e: "lower p = lower v"
  from assms have "priority_text_ok p" by (auto simp: priority_text_ok_def lower_def case_defs)
  with e have "priority_text_ok v" by (simp add: priority_text_ok_def)
  then have "capitalize v \<in> set [''High'', ''Medium'', ''Low'']"
    using capitalize_in_iff [of v] by blast
  moreover have "lower (capitalize v) = lower p" using e lower_capitalize [of v] by simp
  ultimately show "capitalize v = p" using assms by (auto simp: lower_def case_defs)
qed

lemma list_tasks_due_date_parsed:
  assumes "strptime v = Inr date_obj"
  shows "list_tasks (Some ''due_date'') (Some v) s =
     Inr (filter (\<lambda>t. date (due_date t) = date date_obj) (tasks s))"
  using assms by (simp add: list_tasks_def)

lemma list_tasks_due_date_unparsed:
  assumes "strptime v = Inl e"
  shows "list_tasks (Some ''due_date'') (Some v) s = Inl ValueError"
  using assms strptime_Inl [OF assms] by (simp add: list_tasks_def)

lemmas eval_defs = Task_init_def Task_try_def strptime_def format_regex_def re_defs
  datetime_new_def check_date_fields_def days_in_month_def is_leap_def int_of_def
  digit_value_def capitalize_def lower_def case_defs priority_text_ok_def

section \<open>The claims\<close>

text \<open>
  The round trips hold for due dates from the year 1000 on: a constructed task is
  read back from its dictionary, and a saved store of such tasks is loaded back.
\<close>

lemma to_dict_from_dict_from_1000:
  assumes "strptime date_text = Inr dt" and "1000 \<le> year dt"
    and "priority_text_ok priority_text"
  shows "\<exists>t. Task_init description' date_text priority_text tags' completed' = Inr t \<and>
             from_dict (to_dict t) = Inr t \<and>
             description t = description' \<and> due_date t = dt \<and>
             priority t = capitalize priority_text \<and> completed t = completed' \<and>
             tags t = (case tags' of None \<Rightarrow> [] | Some ts \<Rightarrow> ts)"
proof -
  let ?t = "\<lparr>description = description', due_date = dt, priority = capitalize priority_text,
          completed = completed', tags = (case tags' of None \<Rightarrow> [] | Some ts \<Rightarrow> ts)\<rparr>"
  have i: "Task_init description' date_text priority_text tags' completed' = Inr ?t"
    using assms(1,3) by (rule Task_init_Inr)
  have "from_dict (to_dict ?t) = Inr ?t"
    using Task_init_valid [OF i] assms(2) by (simp add: from_dict_to_dict)
  with i show ?thesis by simp
qed

lemma save_load_from_1000:
  assumes "\<forall>t\<in>set (tasks s). valid_Task t \<and> 1000 \<le> year (due_date t)"
  shows "load_from_file path (save_to_file path s fs) ToDoList_init = (Inr (), \<lparr>tasks = tasks s\<rparr>)"
  using from_dicts_to_dict [OF assms]
  by (simp add: load_from_file_def save_to_file_def ToDoList_init_def)

text \<open>
  Claim C1. The code at the input \<open>Task("Old", "0999-01-05", "low")\<close>: the date text
  parses and the priority text is valid, so the constructor succeeds; \<open>to_dict\<close> writes
  the due date as \<open>999-01-05\<close>, and \<open>from_dict\<close> on that dictionary raises
  \<open>InvalidDateError\<close> where the claim says it gives back an equal Task.
\<close>

theorem to_dict_from_dict_year_999:
  "strptime ''0999-01-05'' = Inr \<lparr>year = 999, month = 1, day = 5\<rparr> \<and>
   priority_text_ok ''low'' \<and>
   Task_init ''Old'' ''0999-01-05'' ''low'' None False =
     Inr \<lparr>description = ''Old'', due_date = \<lparr>year = 999, month = 1, day = 5\<rparr>,
          priority = ''Low'', completed = False, tags = []\<rparr> \<and>
   d_due_date (to_dict \<lparr>description = ''Old'', due_date = \<lparr>year = 999, month = 1, day = 5\<rparr>,
          priority = ''Low'', completed = False, tags = []\<rparr>) = Some ''999-01-05'' \<and>
   from_dict (to_dict \<lparr>description = ''Old'', due_date = \<lparr>year = 999, month = 1, day = 5\<rparr>,
          priority = ''Low'', completed = False, tags = []\<rparr>) = Inl InvalidDateError"
proof -
  have a: "strptime ''0999-01-05'' = Inr \<lparr>year = 999, month = 1, day = 5\<rparr>"
    by (simp add: eval_defs)
  have b: "priority_text_ok ''low''" by (simp add: eval_defs)
  have c: "Task_init ''Old'' ''0999-01-05'' ''low'' None False =
     Inr \<lparr>description = ''Old'', due_date = \<lparr>year = 999, month = 1, day = 5\<rparr>,
          priority = ''Low'', completed = False, tags = []\<rparr>"
    by (simp add: eval_defs)
  have d: "strftime \<lparr>year = 999, month = 1, day = 5\<rparr> = ''999-01-05''"
    by (simp add: strftime_def decimal.simps digit_char_def)
  have e: "strptime ''999-01-05'' = Inl ValueError" by (simp add: eval_defs)
  show ?thesis
    using a b c d e by (simp add: to_dict_def from_dict_def Task_init_def Task_try_def)
qed

text \<open>
  Claim C2. The code at a store that holds one valid task due on 0050-12-31:
  \<open>save_to_file\<close> writes the due date as \<open>50-12-31\<close>, and \<open>load_from_file\<close> of
  that file into a new store raises \<open>InvalidDateError\<close> and leaves the store empty,
  where the claim says it gives back the saved tasks.
\<close>

theorem save_load_year_50:
  "valid_Task \<lparr>description = ''Census'', due_date = \<lparr>year = 50, month = 12, day = 31\<rparr>,
      priority = ''High'', completed = True, tags = [''history'']\<rparr> \<and>
   save_to_file ''tasks.json''
     \<lparr>tasks = [\<lparr>description = ''Census'', due_date = \<lparr>year = 50, month = 12, day = 31\<rparr>,
        priority = ''High'', completed = True, tags = [''history'']\<rparr>]\<rparr> Map.empty ''tasks.json'' =
     Some [\<lparr>d_description = Some ''Census'', d_due_date = Some ''50-12-31'',
            d_priority = Some ''High'', d_completed = Some True,
            d_tags = Some [''history'']\<rparr>] \<and>
   load_from_file ''tasks.json''
     (save_to_file ''tasks.json''
       \<lparr>tasks = [\<lparr>description = ''Census'', due_date = \<lparr>year = 50, month = 12, day = 31\<rparr>,
          priority = ''High'', completed = True, tags = [''history'']\<rparr>]\<rparr> Map.empty)
     ToDoList_init =
     (Inl InvalidDateError, ToDoList_init)"
proof -
  have d: "strftime \<lparr>year = 50, month = 12, day = 31\<rparr> = ''50-12-31''"
    by (simp add: strftime_def decimal.simps digit_char_def)
  have e: "strptime ''50-12-31'' = Inl ValueError" by (simp add: eval_defs)
  have v: "valid_Task \<lparr>description = ''Census'', due_date = \<lparr>year = 50, month = 12, day = 31\<rparr>,
      priority = ''High'', completed = True, tags = [''history'']\<rparr>"
    by (simp add: valid_Task_def check_date_fields_def days_in_month_def is_leap_def)
  show ?thesis
    using d e v
    by (simp add: save_to_file_def load_from_file_def to_dict_def from_dict_def
        Task_init_def Task_try_def ToDoList_init_def)
qed

text \<open>
  Claim C3. As stated (an invalid priority text fails with \<open>InvalidPriorityError\<close>
  whatever the other arguments are) the claim does not hold: the due date is parsed
  first, so with a date text that does not parse the constructor fails with
  \<open>InvalidDateError\<close>.
\<close>

theorem invalid_priority_counterexample:
  "\<not> priority_text_ok ''urgent'' \<and>
   Task_init ''Pay rent'' ''not-a-date'' ''urgent'' None False = Inl InvalidDateError \<and>
   Task_init ''Pay rent'' ''not-a-date'' ''urgent'' None False \<noteq> Inl InvalidPriorityError"
  by (simp add: eval_defs)

text \<open>
  Claim C3, amended. For every priority text that is not High, Medium or Low up to case
  and every due-date text that parses, constructing a Task fails with
  \<open>InvalidPriorityError\<close>, whatever the description, tags and completed flag are.
\<close>

theorem invalid_priority_after_valid_date:
  assumes "\<not> priority_text_ok priority'" and "strptime due_date' = Inr dt"
  shows "Task_init description' due_date' priority' tags' completed' = Inl InvalidPriorityError"
  using assms capitalize_in_iff [of priority']
  by (simp add: Task_init_def Task_try_def)

theorem invalid_priority_after_valid_date_witness:
  "\<not> priority_text_ok ''urgent'' \<and>
   strptime ''2025-01-05'' = Inr \<lparr>year = 2025, month = 1, day = 5\<rparr> \<and>
   Task_init ''Pay rent'' ''2025-01-05'' ''urgent'' (Some [''home'']) False = Inl InvalidPriorityError"
proof -
  have p: "\<not> priority_text_ok ''urgent''" by (simp add: eval_defs)
  have d: "strptime ''2025-01-05'' = Inr \<lparr>year = 2025, month = 1, day = 5\<rparr>"
    by (simp add: eval_defs)
  from invalid_priority_after_valid_date [OF p d, of "''Pay rent''" "Some [''home'']" False] p d
  show ?thesis by simp
qed

text \<open>
  Claim C4. For every due-date text that \<open>strptime\<close> does not parse under the fixed
  format, constructing a Task fails with \<open>InvalidDateError\<close>, whatever the other
  arguments are.
\<close>

theorem invalid_date_error:
  assumes "strptime due_date' = Inl e"
  shows "Task_init description' due_date' priority' tags' completed' = Inl InvalidDateError"
  using assms strptime_Inl [OF assms]
  by (simp add: Task_init_def Task_try_def)

theorem invalid_date_error_witness:
  "strptime ''2024-13-01'' = Inl ValueError \<and>
   Task_init ''Pay rent'' ''2024-13-01'' ''High'' None False = Inl InvalidDateError \<and>
   strptime ''not-a-date'' = Inl ValueError \<and>
   Task_init ''Pay rent'' ''not-a-date'' ''urgent'' (Some [''home'']) True = Inl InvalidDateError"
proof -
  have a: "strptime ''2024-13-01'' = Inl ValueError" by (simp add: eval_defs)
  have b: "strptime ''not-a-date'' = Inl ValueError" by (simp add: eval_defs)
  from invalid_date_error [OF a, of "''Pay rent''" "''High''" None False]
    invalid_date_error [OF b, of "''Pay rent''" "''urgent''" "Some [''home'']" True] a b
  show ?thesis by simp
qed

text \<open>
  Claim C5. As stated (a priority-validation failure surfaces as \<open>InvalidDateError\<close>)
  the claim does not hold: \<open>InvalidPriorityError\<close> is not a \<open>ValueError\<close>, so the
  handler does not catch it, and a valid date with an invalid priority fails with
  \<open>InvalidPriorityError\<close>.
\<close>

theorem priority_failure_not_date_error_counterexample:
  "strptime ''2025-01-05'' = Inr \<lparr>year = 2025, month = 1, day = 5\<rparr> \<and>
   \<not> priority_text_ok ''urgent'' \<and>
   Task_init ''Pay rent'' ''2025-01-05'' ''urgent'' None False = Inl InvalidPriorityError \<and>
   Task_init ''Pay rent'' ''2025-01-05'' ''urgent'' None False \<noteq> Inl InvalidDateError"
  by (simp add: eval_defs)

text \<open>
  Claim C5, amended. Constructing a Task fails with \<open>InvalidDateError\<close> exactly when
  the due-date text does not parse; when the due date parses and the priority is
  invalid, the failure is \<open>InvalidPriorityError\<close>.
\<close>

theorem date_error_iff_unparsed:
  "(Task_init description' due_date' priority' tags' completed' = Inl InvalidDateError
      \<longleftrightarrow> strptime due_date' = Inl ValueError) \<and>
   (strptime due_date' \<noteq> Inl ValueError \<and> \<not> priority_text_ok priority'
      \<longrightarrow> Task_init description' due_date' priority' tags' completed' = Inl InvalidPriorityError)"
proof (cases "strptime due_date'")
  case (Inl e)
  with strptime_Inl [OF Inl] show ?thesis
    by (simp add: Task_init_def Task_try_def)
next
  case (Inr dt)
  with capitalize_in_iff [of priority'] show ?thesis
    by (simp add: Task_init_def Task_try_def)
qed

theorem date_error_iff_unparsed_witness:
  "Task_init ''Pay rent'' ''2024-02-30'' ''urgent'' None False = Inl InvalidDateError \<and>
   strptime ''2024-02-30'' = Inl ValueError \<and>
   strptime ''2024-02-29'' \<noteq> Inl ValueError \<and> \<not> priority_text_ok ''urgent'' \<and>
   Task_init ''Pay rent'' ''2024-02-29'' ''urgent'' None False = Inl InvalidPriorityError"
proof -
  have a: "strptime ''2024-02-30'' = Inl ValueError" by (simp add: eval_defs)
  have b: "strptime ''2024-02-29'' \<noteq> Inl ValueError" by (simp add: eval_defs)
  have c: "\<not> priority_text_ok ''urgent''" by (simp add: eval_defs)
  from date_error_iff_unparsed [of "''Pay rent''" "''2024-02-30''" "''urgent''" None False]
    date_error_iff_unparsed [of "''Pay rent''" "''2024-02-29''" "''urgent''" None False] a b c
  show ?thesis by simp
qed

text \<open>
  Claim C6. For every store and every description that no task of the store has,
  \<open>remove_task\<close> and \<open>mark_completed\<close> both fail with \<open>TaskNotFoundError\<close> and
  leave the store as it was.
\<close>

theorem not_found_unchanged:
  assumes "\<forall>t\<in>set (tasks s). description t \<noteq> d"
  shows "remove_task d s = (Inl TaskNotFoundError, s) \<and>
         mark_completed d s = (Inl TaskNotFoundError, s)"
  using find_None_description [OF assms] mark_loop_None [OF assms]
  by (simp add: remove_task_def mark_completed_def)

theorem not_found_unchanged_witness:
  "remove_task ''X'' ToDoList_init = (Inl TaskNotFoundError, ToDoList_init) \<and>
   mark_completed ''X'' ToDoList_init = (Inl TaskNotFoundError, ToDoList_init) \<and>
   remove_task ''pay rent'' \<lparr>tasks = [\<lparr>description = ''Pay rent'',
        due_date = \<lparr>year = 2025, month = 1, day = 5\<rparr>, priority = ''High'',
        completed = False, tags = []\<rparr>]\<rparr> =
     (Inl TaskNotFoundError, \<lparr>tasks = [\<lparr>description = ''Pay rent'',
        due_date = \<lparr>year = 2025, month = 1, day = 5\<rparr>, priority = ''High'',
        completed = False, tags = []\<rparr>]\<rparr>) \<and>
   mark_completed ''pay rent'' \<lparr>tasks = [\<lparr>description = ''Pay rent'',
        due_date = \<lparr>year = 2025, month = 1, day = 5\<rparr>, priority = ''High'',
        completed = False, tags = []\<rparr>]\<rparr> =
     (Inl TaskNotFoundError, \<lparr>tasks = [\<lparr>description = ''Pay rent'',
        due_date = \<lparr>year = 2025, month = 1, day = 5\<rparr>, priority = ''High'',
        completed = False, tags = []\<rparr>]\<rparr>)"
proof -
  let ?s = "\<lparr>tasks = [\<lparr>description = ''Pay rent'',
        due_date = \<lparr>year = 2025, month = 1, day = 5\<rparr>, priority = ''High'',
        completed = False, tags = []\<rparr>]\<rparr>"
  have a: "\<forall>t\<in>set (tasks ToDoList_init). description t \<noteq> ''X''"
    by (simp add: ToDoList_init_def)
  have b: "\<forall>t\<in>set (tasks ?s). description t \<noteq> ''pay rent''" by simp
  from not_found_unchanged [OF a] not_found_unchanged [OF b]
  show ?thesis by simp
qed

text \<open>
  Claim C7. For every store and every value \<open>v\<close>, \<open>list_tasks\<close> with the filter
  \<open>priority\<close> returns the tasks whose priority equals \<open>v\<close> after lower-casing both,
  in the order of the store. The store [A (High), B (Low), C (High)] with the value
  \<open>high\<close> gives [A, C].
\<close>

theorem list_tasks_priority:
  "list_tasks (Some ''priority'') (Some v) s =
     Inr (filter (\<lambda>t. lower (priority t) = lower v) (tasks s))"
  by (simp add: list_tasks_def)

theorem list_tasks_priority_witness:
  "list_tasks (Some ''priority'') (Some ''high'')
     \<lparr>tasks =
       [\<lparr>description = ''A'', due_date = \<lparr>year = 2025, month = 1, day = 5\<rparr>,
         priority = ''High'', completed = False, tags = []\<rparr>,
        \<lparr>description = ''B'', due_date = \<lparr>year = 2025, month = 1, day = 6\<rparr>,
         priority = ''Low'', completed = False, tags = []\<rparr>,
        \<lparr>description = ''C'', due_date = \<lparr>year = 2025, month = 1, day = 7\<rparr>,
         priority = ''High'', completed = True, tags = [''x'']\<rparr>]\<rparr> =
   Inr [\<lparr>description = ''A'', due_date = \<lparr>year = 2025, month = 1, day = 5\<rparr>,
         priority = ''High'', completed = False, tags = []\<rparr>,
        \<lparr>description = ''C'', due_date = \<lparr>year = 2025, month = 1, day = 7\<rparr>,
         priority = ''High'', completed = True, tags = [''x'']\<rparr>]"
  using list_tasks_priority [of "''high''" "\<lparr>tasks =
       [\<lparr>description = ''A'', due_date = \<lparr>year = 2025, month = 1, day = 5\<rparr>,
         priority = ''High'', completed = False, tags = []\<rparr>,
        \<lparr>description = ''B'', due_date = \<lparr>year = 2025, month = 1, day = 6\<rparr>,
         priority = ''Low'', completed = False, tags = []\<rparr>,
        \<lparr>description = ''C'', due_date = \<lparr>year = 2025, month = 1, day = 7\<rparr>,
         priority = ''High'', completed = True, tags = [''x'']\<rparr>]\<rparr>"]
  by (simp add: lower_def case_defs)

text \<open>
  Claim C8. The code at the input \<open>list_tasks(filter_by="due_date", value="not-a-date")\<close>:
  the call fails with the \<open>ValueError\<close> of \<open>strptime\<close>, not with
  \<open>InvalidDateError\<close>, while \<open>Task.__init__\<close> turns the same failure into
  \<open>InvalidDateError\<close>.
\<close>

theorem list_tasks_due_date_raises_ValueError:
  "list_tasks (Some ''due_date'') (Some ''not-a-date'') s = Inl ValueError \<and>
   list_tasks (Some ''due_date'') (Some ''not-a-date'') s \<noteq> Inl InvalidDateError \<and>
   Task_init d ''not-a-date'' p tg c = Inl InvalidDateError"
proof -
  have "strptime ''not-a-date'' = Inl ValueError" by (simp add: eval_defs)
  then show ?thesis by (simp add: list_tasks_def Task_init_def Task_try_def)
qed

text \<open>
  Claim C9. For every store, every filter kind other than \<open>priority\<close>, \<open>due_date\<close>,
  \<open>tag\<close> and \<open>keyword\<close> (no filter kind included) and every value, \<open>list_tasks\<close>
  returns all tasks of the store in their order.
\<close>

theorem list_tasks_unfiltered:
  assumes "filter_by \<notin> {Some ''priority'', Some ''due_date'', Some ''tag'', Some ''keyword''}"
  shows "list_tasks filter_by val s = Inr (tasks s)"
  using assms by (simp add: list_tasks_def)

theorem list_tasks_unfiltered_witness:
  "None \<notin> {Some ''priority'', Some ''due_date'', Some ''tag'', Some ''keyword''} \<and>
   Some ''status'' \<notin> {Some ''priority'', Some ''due_date'', Some ''tag'', Some ''keyword''} \<and>
   list_tasks None None
     \<lparr>tasks =
       [\<lparr>description = ''Pay rent'', due_date = \<lparr>year = 2025, month = 1, day = 5\<rparr>,
         priority = ''High'', completed = False, tags = []\<rparr>,
        \<lparr>description = ''Call Bob'', due_date = \<lparr>year = 2025, month = 1, day = 6\<rparr>,
         priority = ''Low'', completed = False, tags = [''personal'']\<rparr>]\<rparr> =
   Inr [\<lparr>description = ''Pay rent'', due_date = \<lparr>year = 2025, month = 1, day = 5\<rparr>,
         priority = ''High'', completed = False, tags = []\<rparr>,
        \<lparr>description = ''Call Bob'', due_date = \<lparr>year = 2025, month = 1, day = 6\<rparr>,
         priority = ''Low'', completed = False, tags = [''personal'']\<rparr>] \<and>
   list_tasks (Some ''status'') (Some ''not-a-date'')
     \<lparr>tasks =
       [\<lparr>description = ''Pay rent'', due_date = \<lparr>year = 2025, month = 1, day = 5\<rparr>,
         priority = ''High'', completed = False, tags = []\<rparr>,
        \<lparr>description = ''Call Bob'', due_date = \<lparr>year = 2025, month = 1, day = 6\<rparr>,
         priority = ''Low'', completed = False, tags = [''personal'']\<rparr>]\<rparr> =
   Inr [\<lparr>description = ''Pay rent'', due_date = \<lparr>year = 2025, month = 1, day = 5\<rparr>,
         priority = ''High'', completed = False, tags = []\<rparr>,
        \<lparr>description = ''Call Bob'', due_date = \<lparr>year = 2025, month = 1, day = 6\<rparr>,
         priority = ''Low'', completed = False, tags = [''personal'']\<rparr>]"
proof -
  let ?s = "\<lparr>tasks =
       [\<lparr>description = ''Pay rent'', due_date = \<lparr>year = 2025, month = 1, day = 5\<rparr>,
         priority = ''High'', completed = False, tags = []\<rparr>,
        \<lparr>description = ''Call Bob'', due_date = \<lparr>year = 2025, month = 1, day = 6\<rparr>,
         priority = ''Low'', completed = False, tags = [''personal'']\<rparr>]\<rparr>"
  have a: "None \<notin> {Some ''priority'', Some ''due_date'', Some ''tag'', Some ''keyword''}"
    by simp
  have b: "Some ''status'' \<notin> {Some ''priority'', Some ''due_date'', Some ''tag'', Some ''keyword''}"
    by simp
  from list_tasks_unfiltered [OF a, of None ?s]
    list_tasks_unfiltered [OF b, of "Some ''not-a-date''" ?s] a b
  show ?thesis by simp
qed

text \<open>
  Claim C10. The description is not validated: for every due-date text that parses and
  every priority text that is High, Medium or Low up to case, constructing a Task with
  the empty description succeeds.
\<close>

theorem empty_description_accepted:
  assumes "strptime due_date' = Inr dt" and "priority_text_ok priority'"
  shows "Task_init [] due_date' priority' tags' completed' =
     Inr \<lparr>description = [], due_date = dt, priority = capitalize priority',
          completed = completed', tags = (case tags' of None \<Rightarrow> [] | Some ts \<Rightarrow> ts)\<rparr>"
  using assms by (rule Task_init_Inr)

theorem empty_description_accepted_witness:
  "strptime ''2025-01-05'' = Inr \<lparr>year = 2025, month = 1, day = 5\<rparr> \<and>
   priority_text_ok ''medium'' \<and>
   Task_init [] ''2025-01-05'' ''medium'' None False =
     Inr \<lparr>description = [], due_date = \<lparr>year = 2025, month = 1, day = 5\<rparr>,
          priority = ''Medium'', completed = False, tags = []\<rparr>"
proof -
  have d: "strptime ''2025-01-05'' = Inr \<lparr>year = 2025, month = 1, day = 5\<rparr>"
    by (simp add: eval_defs)
  have p: "priority_text_ok ''medium''" by (simp add: eval_defs)
  have c: "capitalize ''medium'' = ''Medium''" by (simp add: eval_defs)
  from empty_description_accepted [OF d p, of None False] d p c
  show ?thesis by simp
qed

end
